theory Spec2Isabelle
  imports Main "HOL-Library.Word"
begin

section \<open>Values, messages and domain objects\<close>

text \<open>
  Values carried by readings, actuator commands and configurations are Python values: a
  bool, an int, a float, a string or a tuple of these. The connector never computes with
  them, it hands them to the message factory, so a float is kept as its IEEE-754 bit
  pattern.
\<close>

datatype pvalue =
    PBool bool
  | PInt int
  | PFloat "64 word"
  | PStr string
  | PTuple "pvalue list"

text \<open>A message is an encoded payload with the topic it travels on.\<close>

datatype message = Message (topic: string) (payload: string)

type_synonym configuration = "(string \<times> pvalue) list"

text \<open>\<^verbatim>\<open>wolk/model/sensor_reading.py\<close>: the constructor stores its three arguments.\<close>

datatype sensor_reading =
  SensorReading (sr_reference: string) (sr_value: pvalue) (sr_timestamp: "int option")

text \<open>
  Modelled from the spec: the modules \<^verbatim>\<open>alarm\<close> and \<^verbatim>\<open>actuator_status\<close> are
  not among the sources. The spec gives an alarm the fields reference, active and optional
  timestamp, an actuator status the fields reference, state and value, and an inbound
  actuation command the fields reference and value.
\<close>

datatype alarm =
  Alarm (al_reference: string) (al_active: bool) (al_timestamp: "int option")

datatype actuator_status =
  ActuatorStatus (as_reference: string) (as_state: string) (as_value: pvalue)

datatype actuator_command =
  ActuatorCommand (ac_reference: string) (ac_value: pvalue)

definition ACTUATOR_STATE_READY :: string where "ACTUATOR_STATE_READY = ''READY''"
definition ACTUATOR_STATE_BUSY :: string where "ACTUATOR_STATE_BUSY = ''BUSY''"
definition ACTUATOR_STATE_ERROR :: string where "ACTUATOR_STATE_ERROR = ''ERROR''"

definition VERSION_MAJOR :: int where "VERSION_MAJOR = 2"
definition VERSION_MINOR :: int where "VERSION_MINOR = 0"
definition VERSION_PATCH :: int where "VERSION_PATCH = 0"

text \<open>\<^verbatim>\<open>class Device\<close>: \<^verbatim>\<open>actuator_references\<close> defaults to \<^verbatim>\<open>None\<close>.\<close>

datatype device =
  Device (key: string) (password: string) (actuator_references: "string list option")

section \<open>External collaborators\<close>

text \<open>
  Every call that leaves the connector (to the transport, to a device callback, to the
  timer, to standard output) is recorded, in call order, in a trace. The trace is the
  connector's view of the outside world: what a collaborator returns may depend on
  everything that happened before, so a collaborator that returns a value is a function of
  the trace at the moment of the call.
\<close>

datatype event =
    Connected
  | Disconnected
  | TimerStarted int
  | TimerStopped
  | Printed string
  | Published message bool
  | ActuationHandled string pvalue
  | ActuatorStatusProvided string
  | ConfigurationHandled configuration
  | ConfigurationProvided

text \<open>
  The message factory and the message deserializer are not among the sources; they are
  parameters of the model, one field for each method the connector calls.
\<close>

record message_factory =
  make_from_sensor_reading :: "sensor_reading \<Rightarrow> message"
  make_from_alarm :: "alarm \<Rightarrow> message"
  make_from_actuator_status :: "actuator_status \<Rightarrow> message"
  make_from_configuration :: "configuration \<Rightarrow> message"
  make_from_keep_alive_message :: message

record message_deserializer =
  is_actuation_command :: "message \<Rightarrow> bool"
  is_configuration_command :: "message \<Rightarrow> bool"
  is_keep_alive_response :: "message \<Rightarrow> bool"
  parse_actuator_command :: "message \<Rightarrow> actuator_command"
  parse_configuration_command :: "message \<Rightarrow> configuration"
  parse_keep_alive_response :: "message \<Rightarrow> int"

text \<open>
  The connectivity service: the boolean that \<^verbatim>\<open>publish(message)\<close> returns, given the
  calls made so far. Any sequence of outcomes is the behaviour of some such function.
\<close>

type_synonym connectivity_service = "event list \<Rightarrow> message \<Rightarrow> bool"

text \<open>
  Device callbacks. A handler returns nothing; a provider returns the device's current
  state, which may depend on the calls made so far.
\<close>

type_synonym actuation_handler = "string \<Rightarrow> pvalue \<Rightarrow> unit"
type_synonym actuator_status_provider = "event list \<Rightarrow> string \<Rightarrow> string \<times> pvalue"
type_synonym configuration_handler = "configuration \<Rightarrow> unit"
type_synonym configuration_provider = "event list \<Rightarrow> configuration"

text \<open>The periodic timer of \<^verbatim>\<open>timers.timer()\<close>: its period and whether it runs.\<close>

record timer =
  period :: int
  running :: bool

section \<open>The outbound buffer\<close>

text \<open>
  Modelled from the spec: the class \<^verbatim>\<open>ZerynthMessageQueue\<close> is not among the
  sources. The spec describes a bounded FIFO of capacity N: \<^verbatim>\<open>put\<close> appends if the
  length is below the capacity and returns whether it did; \<^verbatim>\<open>peek\<close> returns the
  oldest message without removing it, none if empty; \<^verbatim>\<open>get\<close> removes and returns the
  oldest message, none if empty.
\<close>

record message_queue =
  capacity :: int
  items :: "message list"

definition ZerynthMessageQueue :: "int \<Rightarrow> message_queue" where
  "ZerynthMessageQueue message_queue_size = \<lparr>capacity = message_queue_size, items = []\<rparr>"

definition put :: "message \<Rightarrow> message_queue \<Rightarrow> bool \<times> message_queue" where
  "put m q =
     (if int (length (items q)) < capacity q
      then (True, q\<lparr>items := items q @ [m]\<rparr>)
      else (False, q))"

definition peek :: "message_queue \<Rightarrow> message option" where
  "peek q = (case items q of [] \<Rightarrow> None | m # ms \<Rightarrow> Some m)"

definition get :: "message_queue \<Rightarrow> message option \<times> message_queue" where
  "get q = (case items q of [] \<Rightarrow> (None, q) | m # ms \<Rightarrow> (Some m, q\<lparr>items := ms\<rparr>))"

section \<open>The connector\<close>

datatype error =
    InterfaceNotProvided
  | NoneNotCallable
  | NoneHasNoAttribute

text \<open>
  \<^verbatim>\<open>class Wolk\<close>: one field for each attribute that \<^verbatim>\<open>__init__\<close> sets, and the
  trace of the calls made to the outside.
\<close>

record wolk =
  device :: device
  message_factory :: message_factory
  message_deserializer :: message_deserializer
  message_queue :: message_queue
  connectivity_service :: connectivity_service
  actuation_handler :: "actuation_handler option"
  actuator_status_provider :: "actuator_status_provider option"
  configuration_handler :: "configuration_handler option"
  configuration_provider :: "configuration_provider option"
  keep_alive_enabled :: bool
  keep_alive_service :: "timer option"
  last_platform_timestamp :: "int option"
  trace :: "event list"

text \<open>
  An operation that can raise returns \<open>Inl (e, s)\<close>, the exception and the connector as
  the exception leaves it (the object outlives the call), or \<open>Inr s\<close> when it returns.
\<close>

type_synonym result = "(error \<times> wolk) + wolk"

definition state_after :: "result \<Rightarrow> wolk" where
  "state_after r = (case r of Inl (e, s) \<Rightarrow> s | Inr s \<Rightarrow> s)"

text \<open>Python truthiness of \<^verbatim>\<open>device.actuator_references\<close>: None and [] are false.\<close>

definition truthy_references :: "string list option \<Rightarrow> bool" where
  "truthy_references refs = (case refs of None \<Rightarrow> False | Some [] \<Rightarrow> False | Some (r # rs) \<Rightarrow> True)"

text \<open>
  \<^verbatim>\<open>Wolk.__init__\<close>. The factory, the deserializer and the connectivity service that
  the constructor builds from the device, host and port are passed in as built.
\<close>

definition wolk_init ::
  "device \<Rightarrow> message_factory \<Rightarrow> message_deserializer \<Rightarrow> connectivity_service \<Rightarrow>
   actuation_handler option \<Rightarrow> actuator_status_provider option \<Rightarrow>
   configuration_handler option \<Rightarrow> configuration_provider option \<Rightarrow>
   int \<Rightarrow> bool \<Rightarrow> error + wolk" where
  "wolk_init dev factory deserializer service actuation_handler' actuator_status_provider'
     configuration_handler' configuration_provider' message_queue_size keep_alive_enabled' =
     (if truthy_references (actuator_references dev) \<and>
         (actuation_handler' = None \<or> actuator_status_provider' = None)
      then Inl InterfaceNotProvided
      else Inr \<lparr>device = dev,
                message_factory = factory,
                message_deserializer = deserializer,
                message_queue = ZerynthMessageQueue message_queue_size,
                connectivity_service = service,
                actuation_handler = actuation_handler',
                actuator_status_provider = actuator_status_provider',
                configuration_handler = configuration_handler',
                configuration_provider = configuration_provider',
                keep_alive_enabled = keep_alive_enabled',
                keep_alive_service = None,
                last_platform_timestamp = None,
                trace = []\<rparr>)"

text \<open>The calls on the collaborators, as steps on the connector.\<close>

definition emit :: "event \<Rightarrow> wolk \<Rightarrow> wolk" where
  "emit e s = s\<lparr>trace := trace s @ [e]\<rparr>"

definition connectivity_publish :: "message \<Rightarrow> wolk \<Rightarrow> bool \<times> wolk" where
  "connectivity_publish m s =
     (let ok = connectivity_service s (trace s) m in (ok, emit (Published m ok) s))"

definition queue_put :: "message \<Rightarrow> wolk \<Rightarrow> wolk" where
  "queue_put m s = s\<lparr>message_queue := snd (put m (message_queue s))\<rparr>"

definition queue_get :: "wolk \<Rightarrow> wolk" where
  "queue_get s = s\<lparr>message_queue := snd (get (message_queue s))\<rparr>"

definition connect :: "wolk \<Rightarrow> wolk" where
  "connect s =
     (let s1 = emit Connected s in
      if keep_alive_enabled s1
      then emit (TimerStarted 60000)
             (s1\<lparr>keep_alive_service := Some \<lparr>period = 60000, running = True\<rparr>\<rparr>)
      else s1)"

definition disconnect :: "wolk \<Rightarrow> result" where
  "disconnect s =
     (let s1 = emit Disconnected s in
      if keep_alive_enabled s1
      then (case keep_alive_service s1 of
              None \<Rightarrow> Inl (NoneHasNoAttribute, s1)
            | Some t \<Rightarrow>
                Inr (emit TimerStopped (s1\<lparr>keep_alive_service := Some (t\<lparr>running := False\<rparr>)\<rparr>)))
      else Inr s1)"

definition send_keep_alive :: "wolk \<Rightarrow> wolk" where
  "send_keep_alive s =
     (let s1 = emit (Printed ''called ping pub'') s;
          message = make_from_keep_alive_message (message_factory s1)
      in snd (connectivity_publish message s1))"

definition add_sensor_reading :: "string \<Rightarrow> pvalue \<Rightarrow> int option \<Rightarrow> wolk \<Rightarrow> wolk" where
  "add_sensor_reading reference val timestamp s =
     (let reading = SensorReading reference val timestamp;
          message = make_from_sensor_reading (message_factory s) reading
      in queue_put message s)"

definition add_alarm :: "string \<Rightarrow> bool \<Rightarrow> int option \<Rightarrow> wolk \<Rightarrow> wolk" where
  "add_alarm reference active timestamp s =
     (let alarm_event = Alarm reference active timestamp;
          message = make_from_alarm (message_factory s) alarm_event
      in queue_put message s)"

text \<open>
  \<^verbatim>\<open>Wolk.publish\<close>: the loop leaves only when \<^verbatim>\<open>peek\<close> returns None; after a
  publish that does not return True it goes round again. The result \<open>None\<close> stands for
  a call that never returns.
\<close>

partial_function (option) publish :: "wolk \<Rightarrow> wolk option" where
  "publish s =
     (case peek (message_queue s) of
        None \<Rightarrow> Some s
      | Some message \<Rightarrow>
          (case connectivity_publish message s of
             (ok, s1) \<Rightarrow> if ok then publish (queue_get s1) else publish s1))"

definition publish_actuator_status :: "string \<Rightarrow> wolk \<Rightarrow> wolk" where
  "publish_actuator_status reference s =
     (case actuator_status_provider s of
        None \<Rightarrow> s
      | Some provider \<Rightarrow>
          (let (state, val) = provider (trace s) reference;
               s1 = emit (ActuatorStatusProvided reference) s;
               status = ActuatorStatus reference state val;
               message = make_from_actuator_status (message_factory s1) status;
               (ok, s2) = connectivity_publish message s1
           in if ok then s2 else queue_put message s2))"

definition publish_configuration :: "wolk \<Rightarrow> result" where
  "publish_configuration s =
     (case configuration_handler s of
        None \<Rightarrow> Inr s
      | Some handler \<Rightarrow>
          (case configuration_provider s of
             None \<Rightarrow> Inl (NoneNotCallable, s)
           | Some provider \<Rightarrow>
               (let configuration = provider (trace s);
                    s1 = emit ConfigurationProvided s;
                    message = make_from_configuration (message_factory s1) configuration;
                    (ok, s2) = connectivity_publish message s1
                in Inr (if ok then s2 else queue_put message s2))))"

definition request_timestamp :: "wolk \<Rightarrow> int option" where
  "request_timestamp s = last_platform_timestamp s"

definition on_inbound_message :: "message \<Rightarrow> wolk \<Rightarrow> result" where
  "on_inbound_message message s =
     (if is_actuation_command (message_deserializer s) message
      then (if actuation_handler s = None \<or> actuator_status_provider s = None
            then Inr s
            else (let actuation = parse_actuator_command (message_deserializer s) message;
                      s1 = emit (ActuationHandled (ac_reference actuation) (ac_value actuation)) s
                  in Inr (publish_actuator_status (ac_reference actuation) s1)))
      else if is_configuration_command (message_deserializer s) message
      then (if configuration_provider s = None \<or> configuration_handler s = None
            then Inr s
            else (let configuration = parse_configuration_command (message_deserializer s) message;
                      s1 = emit (ConfigurationHandled configuration) s
                  in publish_configuration s1))
      else if is_keep_alive_response (message_deserializer s) message
      then Inr (s\<lparr>last_platform_timestamp :=
                    Some (parse_keep_alive_response (message_deserializer s) message)\<rparr>)
      else Inr s)"

section \<open>Executions\<close>

text \<open>
  The calls a connector can receive: its public operations, the timer firing
  \<^verbatim>\<open>_send_keep_alive\<close>, and the transport delivering an inbound message to
  \<^verbatim>\<open>_on_inbound_message\<close>.
\<close>

datatype call =
    Connect
  | Disconnect
  | SendKeepAlive
  | AddSensorReading string pvalue "int option"
  | AddAlarm string bool "int option"
  | Publish
  | PublishActuatorStatus string
  | PublishConfiguration
  | RequestTimestamp
  | OnInboundMessage message

text \<open>One call: \<open>None\<close> when it never returns, otherwise how it ends.\<close>

fun step :: "call \<Rightarrow> wolk \<Rightarrow> result option" where
  "step Connect s = Some (Inr (connect s))"
| "step Disconnect s = Some (disconnect s)"
| "step SendKeepAlive s = Some (Inr (send_keep_alive s))"
| "step (AddSensorReading reference val timestamp) s =
     Some (Inr (add_sensor_reading reference val timestamp s))"
| "step (AddAlarm reference active timestamp) s = Some (Inr (add_alarm reference active timestamp s))"
| "step Publish s = map_option Inr (publish s)"
| "step (PublishActuatorStatus reference) s = Some (Inr (publish_actuator_status reference s))"
| "step PublishConfiguration s = Some (publish_configuration s)"
| "step RequestTimestamp s = Some (Inr s)"
| "step (OnInboundMessage message) s = Some (on_inbound_message message s)"

text \<open>
  A sequence of calls. After a call that raises, the caller goes on with the connector
  as the exception left it.
\<close>

fun run :: "call list \<Rightarrow> wolk \<Rightarrow> wolk option" where
  "run [] s = Some s"
| "run (c # cs) s = (case step c s of None \<Rightarrow> None | Some r \<Rightarrow> run cs (state_after r))"

text \<open>
  The inbound messages that reach the third check of \<^verbatim>\<open>_on_inbound_message\<close> and
  pass it.
\<close>

fun keep_alive_delivery :: "message_deserializer \<Rightarrow> call \<Rightarrow> bool" where
  "keep_alive_delivery d (OnInboundMessage message) =
     (if is_actuation_command d message then False
      else if is_configuration_command d message then False
      else is_keep_alive_response d message)"
| "keep_alive_delivery d c = False"

section \<open>The dispatcher as the specification describes it\<close>

text \<open>
  The specification's dispatcher: an inbound message is first classified, by the three
  predicates in the order actuation, configuration, keep-alive, the first match deciding;
  then the branch of its class runs. These definitions follow the specification's words
  and are compared with \<open>on_inbound_message\<close> below.
\<close>

datatype classification =
    ActuationCommand
  | ConfigurationCommand
  | KeepAliveResponse
  | Unknown

definition classify :: "message_deserializer \<Rightarrow> message \<Rightarrow> classification" where
  "classify d message =
     (if is_actuation_command d message then ActuationCommand
      else if is_configuration_command d message then ConfigurationCommand
      else if is_keep_alive_response d message then KeepAliveResponse
      else Unknown)"

definition actuation_branch :: "message \<Rightarrow> wolk \<Rightarrow> result" where
  "actuation_branch message s =
     (case (actuation_handler s, actuator_status_provider s) of
        (Some handler, Some provider) \<Rightarrow>
          (let actuation = parse_actuator_command (message_deserializer s) message
           in Inr (publish_actuator_status (ac_reference actuation)
                     (emit (ActuationHandled (ac_reference actuation) (ac_value actuation)) s)))
      | _ \<Rightarrow> Inr s)"

definition configuration_branch :: "message \<Rightarrow> wolk \<Rightarrow> result" where
  "configuration_branch message s =
     (case (configuration_handler s, configuration_provider s) of
        (Some handler, Some provider) \<Rightarrow>
          publish_configuration
            (emit (ConfigurationHandled
                     (parse_configuration_command (message_deserializer s) message)) s)
      | _ \<Rightarrow> Inr s)"

definition keep_alive_branch :: "message \<Rightarrow> wolk \<Rightarrow> result" where
  "keep_alive_branch message s =
     Inr (s\<lparr>last_platform_timestamp :=
              Some (parse_keep_alive_response (message_deserializer s) message)\<rparr>)"

definition dispatch :: "message \<Rightarrow> wolk \<Rightarrow> result" where
  "dispatch message s =
     (case classify (message_deserializer s) message of
        ActuationCommand \<Rightarrow> actuation_branch message s
      | ConfigurationCommand \<Rightarrow> configuration_branch message s
      | KeepAliveResponse \<Rightarrow> keep_alive_branch message s
      | Unknown \<Rightarrow> Inr s)"

section \<open>A small device for concrete runs\<close>

text \<open>
  Stand-ins for the collaborators, used where a statement is evaluated on a concrete
  connector: a factory and a deserializer that tell messages apart by topic, transports
  that always accept, never accept, or refuse only the first call, and callbacks of a
  device with one switch.
\<close>

definition demo_factory :: message_factory where
  "demo_factory =
     \<lparr>make_from_sensor_reading = (\<lambda>r. Message ''readings'' (sr_reference r)),
      make_from_alarm = (\<lambda>a. Message ''events'' (al_reference a)),
      make_from_actuator_status = (\<lambda>st. Message ''status'' (as_reference st @ ''='' @ as_state st)),
      make_from_configuration = (\<lambda>c. Message ''config'' (concat (map fst c))),
      make_from_keep_alive_message = Message ''ping'' []\<rparr>"

definition demo_deserializer :: message_deserializer where
  "demo_deserializer =
     \<lparr>is_actuation_command = (\<lambda>m. topic m = ''actuate''),
      is_configuration_command = (\<lambda>m. topic m = ''configure''),
      is_keep_alive_response = (\<lambda>m. topic m = ''pong''),
      parse_actuator_command = (\<lambda>m. ActuatorCommand (payload m) (PBool True)),
      parse_configuration_command = (\<lambda>m. [(payload m, PInt 1)]),
      parse_keep_alive_response = (\<lambda>m. int (length (payload m)))\<rparr>"

definition always_accepts :: connectivity_service where
  "always_accepts h m = True"

definition never_accepts :: connectivity_service where
  "never_accepts h m = False"

definition refuses_first_call :: connectivity_service where
  "refuses_first_call h m = (h \<noteq> [])"

definition demo_actuation_handler :: actuation_handler where
  "demo_actuation_handler reference val = ()"

definition demo_status_provider :: actuator_status_provider where
  "demo_status_provider h reference = (''READY'', PBool True)"

definition demo_configuration_handler :: configuration_handler where
  "demo_configuration_handler c = ()"

definition demo_configuration_provider :: configuration_provider where
  "demo_configuration_provider h = [(''k'', PInt 1)]"

definition demo_device :: device where
  "demo_device = Device ''key'' ''secret'' (Some [''SW''])"

text \<open>
  A connector of the demo device with every callback registered, a buffer of capacity
  100, the given keep-alive setting, transport and buffered messages, and nothing yet
  sent.
\<close>

definition demo_wolk :: "bool \<Rightarrow> connectivity_service \<Rightarrow> message list \<Rightarrow> wolk" where
  "demo_wolk enabled service buffered =
     \<lparr>device = demo_device,
      message_factory = demo_factory,
      message_deserializer = demo_deserializer,
      message_queue = \<lparr>capacity = 100, items = buffered\<rparr>,
      connectivity_service = service,
      actuation_handler = Some demo_actuation_handler,
      actuator_status_provider = Some demo_status_provider,
      configuration_handler = Some demo_configuration_handler,
      configuration_provider = Some demo_configuration_provider,
      keep_alive_enabled = enabled,
      keep_alive_service = None,
      last_platform_timestamp = None,
      trace = []\<rparr>"

definition m1 :: message where "m1 = Message ''readings'' ''T1''"
definition m2 :: message where "m2 = Message ''events'' ''A1''"

section \<open>Basic facts\<close>

lemma emit_fields:
  "trace (emit e s) = trace s @ [e]"
  "message_queue (emit e s) = message_queue s"
  "last_platform_timestamp (emit e s) = last_platform_timestamp s"
  "message_deserializer (emit e s) = message_deserializer s"
  "connectivity_service (emit e s) = connectivity_service s"
  by (simp_all add: emit_def)

lemma queue_put_fields:
  "last_platform_timestamp (queue_put m s) = last_platform_timestamp s"
  "message_deserializer (queue_put m s) = message_deserializer s"
  by (simp_all add: queue_put_def)

lemma queue_get_fields:
  "last_platform_timestamp (queue_get s) = last_platform_timestamp s"
  "message_deserializer (queue_get s) = message_deserializer s"
  "connectivity_service (queue_get s) = connectivity_service s"
  by (simp_all add: queue_get_def)

lemma connectivity_publish_fields:
  "last_platform_timestamp (snd (connectivity_publish m s)) = last_platform_timestamp s"
  "message_deserializer (snd (connectivity_publish m s)) = message_deserializer s"
  by (simp_all add: connectivity_publish_def emit_def Let_def)

section \<open>Construction\<close>

text \<open>
  Claim C6. Construction raises \<open>InterfaceNotProvided\<close> whenever the device's actuator
  references are non-empty and the actuation handler or the actuator status provider is
  missing; with non-empty references and both callbacks present it returns a connector
  holding them; and it raises in no other case.
\<close>
theorem wolk_init_interface_check:
  "(truthy_references (actuator_references dev) \<and> (ah = None \<or> asp = None) \<longrightarrow>
      wolk_init dev f d service ah asp ch cp n ka = Inl InterfaceNotProvided)
   \<and> (truthy_references (actuator_references dev) \<and> ah = Some h \<and> asp = Some p \<longrightarrow>
      (\<exists>s. wolk_init dev f d service ah asp ch cp n ka = Inr s
           \<and> device s = dev \<and> actuation_handler s = Some h \<and> actuator_status_provider s = Some p))
   \<and> ((\<exists>e. wolk_init dev f d service ah asp ch cp n ka = Inl e) \<longleftrightarrow>
      truthy_references (actuator_references dev) \<and> (ah = None \<or> asp = None))"
  by (auto simp: wolk_init_def)

theorem wolk_init_interface_check_witness:
  "truthy_references (actuator_references demo_device)
   \<and> wolk_init demo_device demo_factory demo_deserializer always_accepts
        None (Some demo_status_provider) None None 100 True = Inl InterfaceNotProvided
   \<and> wolk_init demo_device demo_factory demo_deserializer always_accepts
        (Some demo_actuation_handler) (Some demo_status_provider) None None 100 True
      = Inr ((demo_wolk True always_accepts [])
               \<lparr>configuration_handler := None, configuration_provider := None\<rparr>)"
  using wolk_init_interface_check [of demo_device None "Some demo_status_provider"
      demo_factory demo_deserializer always_accepts None None 100 True]
    wolk_init_interface_check [of demo_device "Some demo_actuation_handler" "Some demo_status_provider"
      demo_factory demo_deserializer always_accepts None None 100 True demo_actuation_handler demo_status_provider]
  by (simp add: truthy_references_def demo_device_def wolk_init_def demo_wolk_def ZerynthMessageQueue_def)

section \<open>The side-effect publishers\<close>

text \<open>
  Claim C8. With its provider registered, \<open>publish_actuator_status\<close> asks the provider
  once, makes exactly one publish call on the transport, and calls \<open>put\<close> on the buffer
  exactly when that call failed; after a successful call the buffer is as before. The same
  holds for \<open>publish_configuration\<close> when the configuration handler and provider are
  registered. Nothing else of the connector changes.
\<close>
theorem side_effect_publishers_fall_back_to_buffer:
  "(actuator_status_provider s = Some provider \<longrightarrow>
      (let (state, val) = provider (trace s) reference;
           msg = make_from_actuator_status (message_factory s) (ActuatorStatus reference state val);
           ok = connectivity_service s (trace s @ [ActuatorStatusProvided reference]) msg
       in publish_actuator_status reference s =
            s\<lparr>trace := trace s @ [ActuatorStatusProvided reference, Published msg ok],
              message_queue := (if ok then message_queue s else snd (put msg (message_queue s)))\<rparr>))
   \<and> (configuration_handler s = Some handler \<and> configuration_provider s = Some cprovider \<longrightarrow>
      (let msg = make_from_configuration (message_factory s) (cprovider (trace s));
           ok = connectivity_service s (trace s @ [ConfigurationProvided]) msg
       in publish_configuration s =
            Inr (s\<lparr>trace := trace s @ [ConfigurationProvided, Published msg ok],
                   message_queue := (if ok then message_queue s else snd (put msg (message_queue s)))\<rparr>)))"
  by (auto simp: publish_actuator_status_def publish_configuration_def connectivity_publish_def
      emit_def queue_put_def Let_def split: prod.splits)

lemma publish_configuration_registered:
  assumes "configuration_handler s = Some handler" and "configuration_provider s = Some provider"
  shows "publish_configuration s =
     Inr (s\<lparr>trace := trace s @ [ConfigurationProvided,
              Published (make_from_configuration (message_factory s) (provider (trace s)))
                (connectivity_service s (trace s @ [ConfigurationProvided])
                   (make_from_configuration (message_factory s) (provider (trace s))))],
            message_queue :=
              (if connectivity_service s (trace s @ [ConfigurationProvided])
                    (make_from_configuration (message_factory s) (provider (trace s)))
               then message_queue s
               else snd (put (make_from_configuration (message_factory s) (provider (trace s)))
                          (message_queue s)))\<rparr>)"
  using assms
  by (simp add: publish_configuration_def connectivity_publish_def emit_def queue_put_def Let_def)

text \<open>
  Claim C10. \<open>publish_configuration\<close> returns without any effect exactly when the
  configuration handler is None. With a handler present the provider is called whatever
  it is: a missing provider makes the call raise (calling None) before anything is
  published or buffered, a present one is followed by one publish call. So the call
  returns normally exactly when the handler is absent or the provider is present.
\<close>
theorem publish_configuration_guard:
  "(configuration_handler s = None \<longrightarrow> publish_configuration s = Inr s)
   \<and> (configuration_handler s = Some handler \<and> configuration_provider s = None \<longrightarrow>
        publish_configuration s = Inl (NoneNotCallable, s))
   \<and> (configuration_handler s = Some handler \<and> configuration_provider s = Some provider \<longrightarrow>
        (\<exists>s' msg ok. publish_configuration s = Inr s'
           \<and> trace s' = trace s @ [ConfigurationProvided, Published msg ok]))
   \<and> (publish_configuration s = Inr s \<longleftrightarrow> configuration_handler s = None)
   \<and> ((\<exists>s'. publish_configuration s = Inr s') \<longleftrightarrow>
        (configuration_handler s = None \<or> configuration_provider s \<noteq> None))"
proof (intro conjI)
  show noop: "configuration_handler s = None \<longrightarrow> publish_configuration s = Inr s"
    by (simp add: publish_configuration_def)
  show "configuration_handler s = Some handler \<and> configuration_provider s = None \<longrightarrow>
        publish_configuration s = Inl (NoneNotCallable, s)"
    by (simp add: publish_configuration_def)
  show "configuration_handler s = Some handler \<and> configuration_provider s = Some provider \<longrightarrow>
        (\<exists>s' msg ok. publish_configuration s = Inr s'
           \<and> trace s' = trace s @ [ConfigurationProvided, Published msg ok])"
    by (auto simp: publish_configuration_registered)
  show "publish_configuration s = Inr s \<longleftrightarrow> configuration_handler s = None"
  proof
    assume same: "publish_configuration s = Inr s"
    show "configuration_handler s = None"
    proof (cases "configuration_handler s")
      case None
      then show ?thesis .
    next
      case (Some h)
      show ?thesis
      proof (cases "configuration_provider s")
        case None
        with Some same show ?thesis by (simp add: publish_configuration_def)
      next
        case (Some p)
        from publish_configuration_registered [OF \<open>configuration_handler s = Some h\<close> Some] same
        have "trace s = trace (s\<lparr>trace := trace s @ [ConfigurationProvided,
              Published (make_from_configuration (message_factory s) (p (trace s)))
                (connectivity_service s (trace s @ [ConfigurationProvided])
                   (make_from_configuration (message_factory s) (p (trace s))))],
            message_queue :=
              (if connectivity_service s (trace s @ [ConfigurationProvided])
                    (make_from_configuration (message_factory s) (p (trace s)))
               then message_queue s
               else snd (put (make_from_configuration (message_factory s) (p (trace s)))
                          (message_queue s)))\<rparr>)"
          by simp
        then show ?thesis by simp
      qed
    qed
  next
    assume "configuration_handler s = None"
    with noop show "publish_configuration s = Inr s" by simp
  qed
  show "(\<exists>s'. publish_configuration s = Inr s') \<longleftrightarrow>
        (configuration_handler s = None \<or> configuration_provider s \<noteq> None)"
    by (auto simp: publish_configuration_def Let_def split: option.splits prod.splits)
qed

theorem publish_configuration_guard_witness:
  "configuration_handler ((demo_wolk True never_accepts [])\<lparr>configuration_handler := None\<rparr>) = None
   \<and> publish_configuration ((demo_wolk True never_accepts [])\<lparr>configuration_handler := None\<rparr>)
     = Inr ((demo_wolk True never_accepts [])\<lparr>configuration_handler := None\<rparr>)
   \<and> configuration_handler ((demo_wolk True never_accepts [])\<lparr>configuration_provider := None\<rparr>)
     = Some demo_configuration_handler
   \<and> configuration_provider ((demo_wolk True never_accepts [])\<lparr>configuration_provider := None\<rparr>) = None
   \<and> publish_configuration ((demo_wolk True never_accepts [])\<lparr>configuration_provider := None\<rparr>)
     = Inl (NoneNotCallable, (demo_wolk True never_accepts [])\<lparr>configuration_provider := None\<rparr>)"
proof -
  let ?a = "(demo_wolk True never_accepts [])\<lparr>configuration_handler := None\<rparr>"
  let ?b = "(demo_wolk True never_accepts [])\<lparr>configuration_provider := None\<rparr>"
  have a: "configuration_handler ?a = None"
    by (simp add: demo_wolk_def)
  have b: "configuration_handler ?b = Some demo_configuration_handler"
    "configuration_provider ?b = None"
    by (simp_all add: demo_wolk_def)
  from publish_configuration_guard [of ?a] a
  have ra: "publish_configuration ?a = Inr ?a" by blast
  from publish_configuration_guard [of ?b demo_configuration_handler] b
  have rb: "publish_configuration ?b = Inl (NoneNotCallable, ?b)" by blast
  from a b ra rb show ?thesis by blast
qed

section \<open>The dispatcher\<close>

text \<open>
  Claim C4. \<open>on_inbound_message\<close> is the specification's dispatcher: the message
  gets exactly one of the four classes, decided by the predicates in the order actuation,
  configuration, keep-alive with the first match winning, and the branch of that class
  runs. A message that matches none of the three leaves the connector as it was (no
  callback, no publish call, no buffer change) and raises nothing.
\<close>
theorem on_inbound_message_first_match:
  "on_inbound_message m s = dispatch m s
   \<and> (classify d m = ActuationCommand \<longleftrightarrow> is_actuation_command d m)
   \<and> (classify d m = ConfigurationCommand \<longleftrightarrow>
        \<not> is_actuation_command d m \<and> is_configuration_command d m)
   \<and> (classify d m = KeepAliveResponse \<longleftrightarrow>
        \<not> is_actuation_command d m \<and> \<not> is_configuration_command d m \<and> is_keep_alive_response d m)
   \<and> (classify d m = Unknown \<longleftrightarrow>
        \<not> is_actuation_command d m \<and> \<not> is_configuration_command d m \<and> \<not> is_keep_alive_response d m)
   \<and> (classify (message_deserializer s) m = Unknown \<longrightarrow> on_inbound_message m s = Inr s)"
proof (intro conjI)
  show "on_inbound_message m s = dispatch m s"
    by (auto simp: on_inbound_message_def dispatch_def classify_def actuation_branch_def
        configuration_branch_def keep_alive_branch_def Let_def split: option.splits)
  show "classify (message_deserializer s) m = Unknown \<longrightarrow> on_inbound_message m s = Inr s"
    by (simp add: on_inbound_message_def classify_def split: if_splits)
qed (simp_all add: classify_def)

theorem on_inbound_message_first_match_witness:
  "classify (message_deserializer (demo_wolk True always_accepts [m1])) (Message ''other'' ''x'')
     = Unknown
   \<and> on_inbound_message (Message ''other'' ''x'') (demo_wolk True always_accepts [m1])
       = Inr (demo_wolk True always_accepts [m1])"
proof -
  let ?s = "demo_wolk True always_accepts [m1]"
  let ?m = "Message ''other'' ''x''"
  have u: "classify (message_deserializer ?s) ?m = Unknown"
    by (simp add: classify_def demo_deserializer_def demo_wolk_def)
  from on_inbound_message_first_match [of ?m ?s demo_deserializer] u
  have "on_inbound_message ?m ?s = Inr ?s" by blast
  with u show ?thesis by blast
qed

text \<open>
  Claim C5. For an inbound message that the actuation predicate accepts: with both the
  actuation handler and the status provider registered, the handler is called once with
  the parsed reference and value, then the provider is asked once for that reference and
  one publish call is made with the status message of that reference (buffered if the
  call fails); if either callback is missing, the connector is left exactly as it was and
  nothing is called.
\<close>
theorem actuation_command_dispatch:
  assumes "is_actuation_command (message_deserializer s) m"
  shows "(actuation_handler s = Some handler \<and> actuator_status_provider s = Some provider \<longrightarrow>
      (let reference = ac_reference (parse_actuator_command (message_deserializer s) m);
           val = ac_value (parse_actuator_command (message_deserializer s) m);
           handled = trace s @ [ActuationHandled reference val];
           (state, v) = provider handled reference;
           msg = make_from_actuator_status (message_factory s) (ActuatorStatus reference state v);
           ok = connectivity_service s (handled @ [ActuatorStatusProvided reference]) msg
       in on_inbound_message m s =
            Inr (s\<lparr>trace := handled @ [ActuatorStatusProvided reference, Published msg ok],
                   message_queue := (if ok then message_queue s else snd (put msg (message_queue s)))\<rparr>)))
   \<and> (actuation_handler s = None \<or> actuator_status_provider s = None \<longrightarrow>
        on_inbound_message m s = Inr s)"
  using assms
  by (auto simp: on_inbound_message_def publish_actuator_status_def connectivity_publish_def
      emit_def queue_put_def Let_def split: prod.splits)

theorem actuation_command_dispatch_witness:
  "is_actuation_command (message_deserializer (demo_wolk True never_accepts [])) (Message ''actuate'' ''SW'')
   \<and> actuation_handler (demo_wolk True never_accepts []) = Some demo_actuation_handler
   \<and> actuator_status_provider (demo_wolk True never_accepts []) = Some demo_status_provider
   \<and> on_inbound_message (Message ''actuate'' ''SW'') (demo_wolk True never_accepts [])
       = Inr ((demo_wolk True never_accepts [Message ''status'' ''SW=READY''])
                \<lparr>trace := [ActuationHandled ''SW'' (PBool True), ActuatorStatusProvided ''SW'',
                            Published (Message ''status'' ''SW=READY'') False]\<rparr>)"
proof -
  let ?s = "demo_wolk True never_accepts []"
  let ?m = "Message ''actuate'' ''SW''"
  have h: "is_actuation_command (message_deserializer ?s) ?m"
    by (simp add: demo_deserializer_def demo_wolk_def)
  have r: "actuation_handler ?s = Some demo_actuation_handler"
    "actuator_status_provider ?s = Some demo_status_provider"
    by (simp_all add: demo_wolk_def)
  from actuation_command_dispatch [OF h, of demo_actuation_handler demo_status_provider, THEN conjunct1] r
  have "on_inbound_message ?m ?s =
      Inr ((demo_wolk True never_accepts [Message ''status'' ''SW=READY''])
                \<lparr>trace := [ActuationHandled ''SW'' (PBool True), ActuatorStatusProvided ''SW'',
                            Published (Message ''status'' ''SW=READY'') False]\<rparr>)"
    by (simp add: demo_wolk_def demo_deserializer_def demo_status_provider_def demo_factory_def
        never_accepts_def put_def Let_def)
  with h r show ?thesis by blast
qed

theorem side_effect_publishers_fall_back_to_buffer_witness:
  "actuator_status_provider (demo_wolk True always_accepts [m1]) = Some demo_status_provider
   \<and> publish_actuator_status ''SW'' (demo_wolk True always_accepts [m1])
       = (demo_wolk True always_accepts [m1])
           \<lparr>trace := [ActuatorStatusProvided ''SW'', Published (Message ''status'' ''SW=READY'') True]\<rparr>
   \<and> configuration_handler (demo_wolk True never_accepts [m1]) = Some demo_configuration_handler
   \<and> configuration_provider (demo_wolk True never_accepts [m1]) = Some demo_configuration_provider
   \<and> publish_configuration (demo_wolk True never_accepts [m1])
       = Inr ((demo_wolk True never_accepts [m1, Message ''config'' ''k''])
           \<lparr>trace := [ConfigurationProvided, Published (Message ''config'' ''k'') False]\<rparr>)"
proof -
  let ?s = "demo_wolk True always_accepts [m1]"
  let ?t = "demo_wolk True never_accepts [m1]"
  have h: "actuator_status_provider ?s = Some demo_status_provider"
    "configuration_handler ?t = Some demo_configuration_handler"
    "configuration_provider ?t = Some demo_configuration_provider"
    by (simp_all add: demo_wolk_def)
  from side_effect_publishers_fall_back_to_buffer
         [of ?s demo_status_provider "''SW''" demo_configuration_handler demo_configuration_provider,
          THEN conjunct1] h(1)
  have a: "publish_actuator_status ''SW'' ?s
       = ?s\<lparr>trace := [ActuatorStatusProvided ''SW'', Published (Message ''status'' ''SW=READY'') True]\<rparr>"
    by (simp add: demo_wolk_def demo_status_provider_def demo_factory_def always_accepts_def Let_def)
  from side_effect_publishers_fall_back_to_buffer
         [of ?t demo_status_provider "''SW''" demo_configuration_handler demo_configuration_provider,
          THEN conjunct2] h(2,3)
  have b: "publish_configuration ?t
       = Inr ((demo_wolk True never_accepts [m1, Message ''config'' ''k''])
           \<lparr>trace := [ConfigurationProvided, Published (Message ''config'' ''k'') False]\<rparr>)"
    by (simp add: demo_wolk_def demo_configuration_provider_def demo_factory_def never_accepts_def put_def Let_def)
  from h a b show ?thesis by blast
qed


section \<open>The drain\<close>

lemma publish_returns_empty:
  assumes "publish s = Some s'"
  shows "items (message_queue s') = []"
proof (rule publish.raw_induct [where P = "\<lambda>s s'. items (message_queue s') = []", OF _ assms])
  fix f s s'
  assume IH: "\<And>s s'. f s = Some s' \<Longrightarrow> items (message_queue s') = []"
    and body: "(case peek (message_queue s) of
        None \<Rightarrow> Some s
      | Some message \<Rightarrow>
          (case connectivity_publish message s of
             (ok, s1) \<Rightarrow> if ok then f (queue_get s1) else f s1)) = Some s'"
  from body show "items (message_queue s') = []"
    by (auto simp: peek_def split: option.splits list.splits prod.splits if_splits dest: IH)
qed

lemma publish_preserves:
  assumes "publish s = Some s'"
  shows "last_platform_timestamp s' = last_platform_timestamp s
         \<and> message_deserializer s' = message_deserializer s"
proof (rule publish.raw_induct [where P = "\<lambda>s s'. last_platform_timestamp s' = last_platform_timestamp s
         \<and> message_deserializer s' = message_deserializer s", OF _ assms])
  fix f s s'
  assume IH: "\<And>s s'. f s = Some s' \<Longrightarrow> last_platform_timestamp s' = last_platform_timestamp s
         \<and> message_deserializer s' = message_deserializer s"
    and body: "(case peek (message_queue s) of
        None \<Rightarrow> Some s
      | Some message \<Rightarrow>
          (case connectivity_publish message s of
             (ok, s1) \<Rightarrow> if ok then f (queue_get s1) else f s1)) = Some s'"
  show "last_platform_timestamp s' = last_platform_timestamp s
         \<and> message_deserializer s' = message_deserializer s"
  proof (cases "peek (message_queue s)")
    case None
    with body show ?thesis by simp
  next
    case (Some m)
    obtain ok s1 where c: "connectivity_publish m s = (ok, s1)" by (cases "connectivity_publish m s")
    then have s1: "s1 = snd (connectivity_publish m s)" by simp
    from body Some c have "f (if ok then queue_get s1 else s1) = Some s'"
      by (simp split: if_splits)
    from IH [OF this] show ?thesis
      by (simp add: s1 connectivity_publish_fields queue_get_fields split: if_splits)
  qed
qed

lemma publish_never_returns_when_refused:
  assumes "publish s = Some s'"
  shows "\<not> ((\<forall>h m. \<not> connectivity_service s h m) \<and> items (message_queue s) \<noteq> [])"
proof (rule publish.raw_induct [where P = "\<lambda>s s'. \<not> ((\<forall>h m. \<not> connectivity_service s h m) \<and> items (message_queue s) \<noteq> [])", OF _ assms])
  fix f s s'
  assume IH: "\<And>s s'. f s = Some s' \<Longrightarrow> \<not> ((\<forall>h m. \<not> connectivity_service s h m) \<and> items (message_queue s) \<noteq> [])"
    and body: "(case peek (message_queue s) of
        None \<Rightarrow> Some s
      | Some message \<Rightarrow>
          (case connectivity_publish message s of
             (ok, s1) \<Rightarrow> if ok then f (queue_get s1) else f s1)) = Some s'"
  show "\<not> ((\<forall>h m. \<not> connectivity_service s h m) \<and> items (message_queue s) \<noteq> [])"
  proof
    assume a: "(\<forall>h m. \<not> connectivity_service s h m) \<and> items (message_queue s) \<noteq> []"
    then obtain m ms where ms: "items (message_queue s) = m # ms"
      by (cases "items (message_queue s)") auto
    from body a ms have "f (emit (Published m False) s) = Some s'"
      by (simp add: peek_def connectivity_publish_def)
    from IH [OF this] a ms show False by (simp add: emit_def)
  qed
qed

text \<open>
  Claim C3. If the transport accepts every publish call, \<open>publish\<close> returns, the buffer
  is empty afterwards, and the calls made on the transport are exactly the buffered
  messages, each once, in the order they were buffered. Nothing else of the connector
  changes.
\<close>
theorem publish_all_accepted:
  assumes "\<And>h m. connectivity_service s h m"
  shows "publish s =
     Some (s\<lparr>message_queue := (message_queue s)\<lparr>items := []\<rparr>,
             trace := trace s @ map (\<lambda>m. Published m True) (items (message_queue s))\<rparr>)"
  using assms
proof (induction "items (message_queue s)" arbitrary: s)
  case Nil
  then show ?case
    by (subst publish.simps) (simp add: peek_def)
next
  case (Cons m ms)
  let ?s' = "queue_get (emit (Published m True) s)"
  have unfold: "publish s = publish ?s'"
    using Cons.hyps(2) [symmetric] Cons.prems
    by (subst publish.simps) (simp add: peek_def connectivity_publish_def)
  have rest: "ms = items (message_queue ?s')"
    using Cons.hyps(2) [symmetric] by (simp add: queue_get_def get_def emit_def)
  have accepted: "\<And>h m. connectivity_service ?s' h m"
    using Cons.prems by (simp add: queue_get_def emit_def)
  show ?case
    using Cons.hyps(1) [OF rest accepted] Cons.hyps(2) [symmetric]
    by (simp add: unfold queue_get_def get_def emit_def)
qed

theorem publish_all_accepted_witness:
  "(\<forall>h m. connectivity_service (demo_wolk True always_accepts [m1, m2]) h m)
   \<and> publish (demo_wolk True always_accepts [m1, m2]) =
       Some ((demo_wolk True always_accepts [])\<lparr>trace := [Published m1 True, Published m2 True]\<rparr>)"
proof -
  let ?s = "demo_wolk True always_accepts [m1, m2]"
  have h: "\<And>h m. connectivity_service ?s h m"
    by (simp add: demo_wolk_def always_accepts_def)
  from publish_all_accepted [of ?s, OF h]
  have "publish ?s = Some ((demo_wolk True always_accepts [])\<lparr>trace := [Published m1 True, Published m2 True]\<rparr>)"
    by (simp add: demo_wolk_def)
  with h show ?thesis by blast
qed

text \<open>
  Claim C1, evaluated on the code. The buffer holds \<open>m1, m2\<close> and the transport refuses
  the first publish call only. The claim has the drain stop at that refusal with
  \<open>m1, m2\<close> still buffered. The loop has no exit on a refused call: it offers \<open>m1\<close>
  again, and returns only once the buffer is empty, after three calls.
\<close>
theorem publish_retries_refused_head:
  "publish (demo_wolk True refuses_first_call [m1, m2]) =
     Some ((demo_wolk True refuses_first_call [])
             \<lparr>trace := [Published m1 False, Published m1 True, Published m2 True]\<rparr>)"
  by (simp add: publish.simps demo_wolk_def peek_def connectivity_publish_def emit_def
      refuses_first_call_def queue_get_def get_def)

text \<open>
  Claim C2, evaluated on the code. With one buffered message and a transport that refuses
  every call, \<open>publish\<close> does not return: the only exit of the loop is an empty buffer,
  and a refused message is never removed.
\<close>
theorem publish_never_returns:
  "publish (demo_wolk True never_accepts [m1]) = None"
proof (cases "publish (demo_wolk True never_accepts [m1])")
  case None
  then show ?thesis .
next
  case (Some s')
  from publish_never_returns_when_refused [OF Some]
  show ?thesis by (simp add: demo_wolk_def never_accepts_def)
qed

text \<open>
  Claim C9, evaluated on the code. A connector constructed with keep-alive disabled
  answers \<open>request_timestamp\<close> with None at first; once a keep-alive response is
  delivered to it, it answers with the parsed timestamp: \<open>on_inbound_message\<close> does not
  look at \<open>keep_alive_enabled\<close>.
\<close>
theorem request_timestamp_set_with_keep_alive_disabled:
  "wolk_init demo_device demo_factory demo_deserializer always_accepts
       (Some demo_actuation_handler) (Some demo_status_provider)
       (Some demo_configuration_handler) (Some demo_configuration_provider) 100 False
     = Inr (demo_wolk False always_accepts [])
   \<and> keep_alive_enabled (demo_wolk False always_accepts []) = False
   \<and> request_timestamp (demo_wolk False always_accepts []) = None
   \<and> on_inbound_message (Message ''pong'' ''12345'') (demo_wolk False always_accepts [])
       = Inr ((demo_wolk False always_accepts [])\<lparr>last_platform_timestamp := Some 5\<rparr>)
   \<and> request_timestamp ((demo_wolk False always_accepts [])\<lparr>last_platform_timestamp := Some 5\<rparr>)
       = Some 5"
  by (simp add: wolk_init_def demo_wolk_def demo_device_def truthy_references_def
      ZerynthMessageQueue_def request_timestamp_def on_inbound_message_def demo_deserializer_def)



section \<open>The last platform timestamp\<close>

lemma state_after_simps:
  "state_after (Inr s) = s"
  "state_after (Inl (e, s)) = s"
  by (simp_all add: state_after_def)

lemma connect_fields:
  "last_platform_timestamp (connect s) = last_platform_timestamp s"
  "message_deserializer (connect s) = message_deserializer s"
  by (simp_all add: connect_def emit_def Let_def)

lemma disconnect_fields:
  "last_platform_timestamp (state_after (disconnect s)) = last_platform_timestamp s"
  "message_deserializer (state_after (disconnect s)) = message_deserializer s"
  by (simp_all add: disconnect_def state_after_def emit_def Let_def split: option.splits)

lemma send_keep_alive_fields:
  "last_platform_timestamp (send_keep_alive s) = last_platform_timestamp s"
  "message_deserializer (send_keep_alive s) = message_deserializer s"
  by (simp_all add: send_keep_alive_def connectivity_publish_def emit_def Let_def)

lemma add_sensor_reading_fields:
  "last_platform_timestamp (add_sensor_reading reference val timestamp s) = last_platform_timestamp s"
  "message_deserializer (add_sensor_reading reference val timestamp s) = message_deserializer s"
  by (simp_all add: add_sensor_reading_def queue_put_def Let_def)

lemma add_alarm_fields:
  "last_platform_timestamp (add_alarm reference active timestamp s) = last_platform_timestamp s"
  "message_deserializer (add_alarm reference active timestamp s) = message_deserializer s"
  by (simp_all add: add_alarm_def queue_put_def Let_def)

lemma publish_actuator_status_fields:
  "last_platform_timestamp (publish_actuator_status reference s) = last_platform_timestamp s"
  "message_deserializer (publish_actuator_status reference s) = message_deserializer s"
  by (simp_all add: publish_actuator_status_def connectivity_publish_def emit_def queue_put_def
      Let_def split: option.splits prod.splits)

lemma publish_configuration_fields:
  "last_platform_timestamp (state_after (publish_configuration s)) = last_platform_timestamp s"
  "message_deserializer (state_after (publish_configuration s)) = message_deserializer s"
  by (simp_all add: publish_configuration_def state_after_def connectivity_publish_def emit_def
      queue_put_def Let_def split: option.splits prod.splits)

lemma on_inbound_message_deserializer:
  "message_deserializer (state_after (on_inbound_message m s)) = message_deserializer s"
  by (simp add: on_inbound_message_def Let_def publish_actuator_status_fields
      publish_configuration_fields emit_fields state_after_simps)

lemma on_inbound_message_other_branches:
  assumes "\<not> keep_alive_delivery (message_deserializer s) (OnInboundMessage m)"
  shows "last_platform_timestamp (state_after (on_inbound_message m s)) = last_platform_timestamp s"
  using assms
  by (simp add: on_inbound_message_def Let_def publish_actuator_status_fields
      publish_configuration_fields emit_fields state_after_simps split: if_splits)

lemma on_inbound_message_keep_alive:
  assumes "is_keep_alive_response (message_deserializer s) m"
    and "\<not> is_actuation_command (message_deserializer s) m"
    and "\<not> is_configuration_command (message_deserializer s) m"
  shows "on_inbound_message m s =
     Inr (s\<lparr>last_platform_timestamp := Some (parse_keep_alive_response (message_deserializer s) m)\<rparr>)"
  using assms by (simp add: on_inbound_message_def)

lemma step_deserializer:
  assumes "step c s = Some r"
  shows "message_deserializer (state_after r) = message_deserializer s"
proof (cases c)
  case Publish
  with assms obtain s' where "publish s = Some s'" "r = Inr s'" by auto
  with publish_preserves [of s s'] show ?thesis by (simp add: state_after_simps)
qed (use assms in \<open>auto simp: connect_fields disconnect_fields send_keep_alive_fields
      add_sensor_reading_fields add_alarm_fields publish_actuator_status_fields
      publish_configuration_fields on_inbound_message_deserializer state_after_simps\<close>)

lemma step_timestamp:
  assumes "step c s = Some r" and "\<not> keep_alive_delivery (message_deserializer s) c"
  shows "last_platform_timestamp (state_after r) = last_platform_timestamp s"
proof (cases c)
  case Publish
  with assms obtain s' where "publish s = Some s'" "r = Inr s'" by auto
  with publish_preserves [of s s'] show ?thesis by (simp add: state_after_simps)
next
  case (OnInboundMessage m)
  with assms on_inbound_message_other_branches [of s m] show ?thesis by auto
qed (use assms in \<open>auto simp: connect_fields disconnect_fields send_keep_alive_fields
      add_sensor_reading_fields add_alarm_fields publish_actuator_status_fields
      publish_configuration_fields state_after_simps\<close>)

lemma run_timestamp:
  assumes "run cs s = Some s'"
    and "\<forall>c\<in>set cs. \<not> keep_alive_delivery (message_deserializer s) c"
  shows "last_platform_timestamp s' = last_platform_timestamp s"
  using assms
proof (induction cs arbitrary: s)
  case Nil
  then show ?case by simp
next
  case (Cons c cs)
  from Cons.prems(1) obtain r where r: "step c s = Some r" and rest: "run cs (state_after r) = Some s'"
    by (auto split: option.splits)
  have d: "message_deserializer (state_after r) = message_deserializer s"
    by (rule step_deserializer [OF r])
  have "last_platform_timestamp s' = last_platform_timestamp (state_after r)"
    using Cons.IH [OF rest] Cons.prems(2) d by simp
  also have "\<dots> = last_platform_timestamp s"
    using step_timestamp [OF r] Cons.prems(2) by simp
  finally show ?case .
qed

lemma wolk_init_fields:
  assumes "wolk_init dev f d service ah asp ch cp n ka = Inr s0"
  shows "last_platform_timestamp s0 = None" and "message_deserializer s0 = d"
  using assms by (auto simp: wolk_init_def split: if_splits)

text \<open>
  Claim C7. The last platform timestamp is None after construction, and stays None over
  any sequence of calls that delivers no keep-alive response; every call other than the
  delivery of a keep-alive response leaves it as it was, also when the call raises; the
  delivery of a keep-alive response overwrites it with the parsed timestamp;
  \<open>request_timestamp\<close> returns its current value. A keep-alive response here is a
  message that the keep-alive predicate accepts and the two predicates checked before it
  do not, the predicates of the three message kinds being exclusive by topic.
\<close>
theorem last_platform_timestamp_lifecycle:
  "(wolk_init dev f d service ah asp ch cp n ka = Inr s0 \<longrightarrow> request_timestamp s0 = None)
   \<and> (wolk_init dev f d service ah asp ch cp n ka = Inr s0 \<and> run cs s0 = Some s'
        \<and> (\<forall>c\<in>set cs. \<not> keep_alive_delivery d c) \<longrightarrow> request_timestamp s' = None)
   \<and> (step c s = Some r \<and> \<not> keep_alive_delivery (message_deserializer s) c \<longrightarrow>
        last_platform_timestamp (state_after r) = last_platform_timestamp s)
   \<and> (is_keep_alive_response (message_deserializer s) m
        \<and> \<not> is_actuation_command (message_deserializer s) m
        \<and> \<not> is_configuration_command (message_deserializer s) m \<longrightarrow>
        on_inbound_message m s =
          Inr (s\<lparr>last_platform_timestamp :=
                   Some (parse_keep_alive_response (message_deserializer s) m)\<rparr>))
   \<and> request_timestamp s = last_platform_timestamp s"
proof (intro conjI impI)
  assume "wolk_init dev f d service ah asp ch cp n ka = Inr s0"
  then show "request_timestamp s0 = None"
    by (simp add: request_timestamp_def wolk_init_fields)
next
  assume a: "wolk_init dev f d service ah asp ch cp n ka = Inr s0 \<and> run cs s0 = Some s'
        \<and> (\<forall>c\<in>set cs. \<not> keep_alive_delivery d c)"
  then have init: "wolk_init dev f d service ah asp ch cp n ka = Inr s0" by simp
  have "last_platform_timestamp s0 = None" and "message_deserializer s0 = d"
    by (rule wolk_init_fields [OF init])+
  with a run_timestamp [of cs s0 s'] show "request_timestamp s' = None"
    by (simp add: request_timestamp_def)
next
  assume "step c s = Some r \<and> \<not> keep_alive_delivery (message_deserializer s) c"
  then show "last_platform_timestamp (state_after r) = last_platform_timestamp s"
    by (blast intro: step_timestamp)
next
  assume "is_keep_alive_response (message_deserializer s) m
        \<and> \<not> is_actuation_command (message_deserializer s) m
        \<and> \<not> is_configuration_command (message_deserializer s) m"
  then show "on_inbound_message m s =
          Inr (s\<lparr>last_platform_timestamp :=
                   Some (parse_keep_alive_response (message_deserializer s) m)\<rparr>)"
    by (simp add: on_inbound_message_keep_alive)
next
  show "request_timestamp s = last_platform_timestamp s"
    by (simp add: request_timestamp_def)
qed


theorem last_platform_timestamp_lifecycle_witness:
  "wolk_init demo_device demo_factory demo_deserializer always_accepts
       (Some demo_actuation_handler) (Some demo_status_provider)
       (Some demo_configuration_handler) (Some demo_configuration_provider) 100 True
     = Inr (demo_wolk True always_accepts [])
   \<and> request_timestamp (demo_wolk True always_accepts []) = None
   \<and> run [AddSensorReading ''T1'' (PInt 23) (Some 1000), Publish,
           OnInboundMessage (Message ''actuate'' ''SW'')]
        (demo_wolk True always_accepts [])
       = Some ((demo_wolk True always_accepts [])
                 \<lparr>trace := [Published (Message ''readings'' ''T1'') True,
                             ActuationHandled ''SW'' (PBool True),
                             ActuatorStatusProvided ''SW'',
                             Published (Message ''status'' ''SW=READY'') True]\<rparr>)
   \<and> \<not> keep_alive_delivery demo_deserializer (AddSensorReading ''T1'' (PInt 23) (Some 1000))
   \<and> \<not> keep_alive_delivery demo_deserializer Publish
   \<and> \<not> keep_alive_delivery demo_deserializer (OnInboundMessage (Message ''actuate'' ''SW''))
   \<and> request_timestamp ((demo_wolk True always_accepts [])
                 \<lparr>trace := [Published (Message ''readings'' ''T1'') True,
                             ActuationHandled ''SW'' (PBool True),
                             ActuatorStatusProvided ''SW'',
                             Published (Message ''status'' ''SW=READY'') True]\<rparr>) = None
   \<and> is_keep_alive_response demo_deserializer (Message ''pong'' ''12345'')
   \<and> \<not> is_actuation_command demo_deserializer (Message ''pong'' ''12345'')
   \<and> \<not> is_configuration_command demo_deserializer (Message ''pong'' ''12345'')
   \<and> on_inbound_message (Message ''pong'' ''12345'') (demo_wolk True always_accepts [])
       = Inr ((demo_wolk True always_accepts [])\<lparr>last_platform_timestamp := Some 5\<rparr>)"
proof -
  let ?s0 = "demo_wolk True always_accepts []"
  let ?cs = "[AddSensorReading ''T1'' (PInt 23) (Some 1000), Publish,
              OnInboundMessage (Message ''actuate'' ''SW'')]"
  let ?s' = "?s0\<lparr>trace := [Published (Message ''readings'' ''T1'') True,
                             ActuationHandled ''SW'' (PBool True),
                             ActuatorStatusProvided ''SW'',
                             Published (Message ''status'' ''SW=READY'') True]\<rparr>"
  let ?pong = "Message ''pong'' ''12345''"
  have init: "wolk_init demo_device demo_factory demo_deserializer always_accepts
       (Some demo_actuation_handler) (Some demo_status_provider)
       (Some demo_configuration_handler) (Some demo_configuration_provider) 100 True = Inr ?s0"
    by (simp add: wolk_init_def demo_wolk_def demo_device_def truthy_references_def
        ZerynthMessageQueue_def)
  have run: "run ?cs ?s0 = Some ?s'"
    by (simp add: demo_wolk_def add_sensor_reading_def queue_put_def put_def demo_factory_def
        publish.simps peek_def connectivity_publish_def emit_def always_accepts_def queue_get_def
        get_def state_after_def on_inbound_message_def demo_deserializer_def
        publish_actuator_status_def demo_status_provider_def Let_def)
  have quiet: "\<forall>c\<in>set ?cs. \<not> keep_alive_delivery demo_deserializer c"
    by (simp add: demo_deserializer_def)
  have pong: "is_keep_alive_response (message_deserializer ?s0) ?pong
        \<and> \<not> is_actuation_command (message_deserializer ?s0) ?pong
        \<and> \<not> is_configuration_command (message_deserializer ?s0) ?pong"
    by (simp add: demo_wolk_def demo_deserializer_def)
  have d: "message_deserializer ?s0 = demo_deserializer"
    by (simp add: demo_wolk_def)
  note inst = last_platform_timestamp_lifecycle
      [of demo_device demo_factory demo_deserializer always_accepts
          "Some demo_actuation_handler" "Some demo_status_provider"
          "Some demo_configuration_handler" "Some demo_configuration_provider" 100 True
          ?s0 ?cs ?s' Publish ?s0 "Inr ?s0" ?pong]
  from inst init have a: "request_timestamp ?s0 = None" by blast
  from inst init run quiet have b: "request_timestamp ?s' = None" by blast
  from inst pong have c: "on_inbound_message ?pong ?s0 =
      Inr (?s0\<lparr>last_platform_timestamp :=
                   Some (parse_keep_alive_response (message_deserializer ?s0) ?pong)\<rparr>)"
    by blast
  have e: "parse_keep_alive_response demo_deserializer ?pong = 5"
    by (simp add: demo_deserializer_def)
  have each: "\<not> keep_alive_delivery demo_deserializer (AddSensorReading ''T1'' (PInt 23) (Some 1000))"
    "\<not> keep_alive_delivery demo_deserializer Publish"
    "\<not> keep_alive_delivery demo_deserializer (OnInboundMessage (Message ''actuate'' ''SW''))"
    by (simp_all add: demo_deserializer_def)
  from init a run each b pong c show ?thesis
    unfolding d e by blast
qed

end
